theory Spec2Isabelle
  imports Main "HOL-Library.Word"
begin

unbundle bit_operations_syntax

section \<open>Data model of the Join Server (package joinserver)\<close>

text \<open>
  Fixed-size byte arrays of the Go types package are words of the same width:
  \<open>IsZero\<close> on such an array is equality with \<open>0\<close>. Arrays that the code indexes
  byte by byte (DevNonce, JoinNonce, the 4-byte MIC) are tuples of bytes.
  A Go pointer or a slice that may be \<open>nil\<close> is an \<open>option\<close>. The request holds its
  Message by value (the handler reads \<open>req.Payload.MType\<close>); what may be missing is
  the Message's \<open>oneof Payload\<close>.
\<close>

type_synonym byte = "8 word"
type_synonym bytes = "byte list"
type_synonym uint16 = "16 word"
type_synonym uint32 = "32 word"
type_synonym EUI64 = "64 word"
type_synonym AES128Key = "128 word"
type_synonym DevAddr = "32 word"
type_synonym NetID = "24 word"
type_synonym DevNonce = "byte \<times> byte"
type_synonym JoinNonce = "byte \<times> byte \<times> byte"
type_synonym MIC = "byte \<times> byte \<times> byte \<times> byte"
type_synonym time = nat

datatype MType =
  JOIN_REQUEST | JOIN_ACCEPT | UNCONFIRMED_UP | UNCONFIRMED_DOWN
  | CONFIRMED_UP | CONFIRMED_DOWN | REJOIN_REQUEST | PROPRIETARY

text \<open>The enum declares only \<open>LORAWAN_R1 = 0\<close>; any other number is \<open>Major_RFU\<close>.\<close>

datatype Major = LORAWAN_R1 | Major_RFU nat

datatype MACVersion =
  MAC_UNKNOWN | MAC_V1_0 | MAC_V1_0_1 | MAC_V1_0_2 | MAC_V1_1 | MAC_V1_0_3

record MHDR =
  m_type :: MType
  major :: Major

record JoinRequestPayload =
  join_eui :: EUI64
  dev_eui :: EUI64
  dev_nonce :: DevNonce

text \<open>The \<open>oneof Payload\<close> of a Message; only the join request is ever read here.\<close>

datatype Message_Payload =
  Payload_MACPayload
  | Payload_JoinRequestPayload JoinRequestPayload
  | Payload_JoinAcceptPayload
  | Payload_RejoinRequestPayload

record Message =
  m_hdr :: MHDR
  mic :: bytes
  payload :: "Message_Payload option"

record DLSettings =
  rx1_dr_offset :: uint32
  rx2_dr :: nat
  opt_neg :: bool

datatype CFListType = FREQUENCIES | CHANNEL_MASKS

record CFList =
  cfl_type :: CFListType
  freq :: "uint32 list"
  ch_masks :: "bool list"

record JoinAcceptPayload =
  ja_net_id :: NetID
  ja_join_nonce :: JoinNonce
  ja_cf_list :: "CFList option"
  ja_dev_addr :: DevAddr
  ja_dl_settings :: DLSettings
  ja_rx_delay :: nat

record KeyEnvelope =
  key :: "AES128Key option"
  kek_label :: string

record SessionKeys =
  session_key_id :: string
  f_nwk_s_int_key :: "KeyEnvelope option"
  s_nwk_s_int_key :: "KeyEnvelope option"
  nwk_s_enc_key :: "KeyEnvelope option"
  app_s_key :: "KeyEnvelope option"

record Session =
  started_at :: time
  dev_addr :: DevAddr
  session_keys :: SessionKeys

record RootKeys =
  app_key :: "KeyEnvelope option"
  nwk_key :: "KeyEnvelope option"

record EndDeviceIdentifiers =
  device_id :: string
  application_id :: string
  ids_dev_eui :: "EUI64 option"
  ids_join_eui :: "EUI64 option"
  ids_dev_addr :: "DevAddr option"

text \<open>The registry entity (deviceregistry.Device wrapping ttnpb.EndDevice).\<close>

record Device =
  ids :: EndDeviceIdentifiers
  network_server_address :: string
  application_server_address :: string
  lorawan_version :: MACVersion
  root_keys :: "RootKeys option"
  next_dev_nonce :: uint32
  used_dev_nonces :: "uint32 list"
  next_join_nonce :: uint32
  disable_join_nonce_check :: bool
  session :: "Session option"
  session_fallback :: "Session option"

record JoinRequest =
  raw_payload :: "bytes option"
  req_payload :: Message
  end_device_ids :: EndDeviceIdentifiers
  selected_mac_version :: MACVersion
  net_id :: NetID
  downlink_settings :: DLSettings
  rx_delay :: nat
  cf_list :: "CFList option"

record JoinResponse =
  resp_raw_payload :: bytes
  resp_session_keys :: SessionKeys
  lifetime :: "nat option"

record SessionKeyRequest =
  skr_session_key_id :: string
  skr_dev_eui :: EUI64

record AppSKeyResponse =
  resp_app_s_key :: KeyEnvelope

text \<open>The incoming call's metadata (rpcmetadata.FromIncomingContext).\<close>

record CallContext =
  NetAddress :: string

record EUI64Prefix =
  prefix_value :: EUI64
  prefix_length :: nat

record JoinServer =
  euiPrefixes :: "EUI64Prefix list"

subsection \<open>Errors\<close>

datatype Component = NetworkServer | ApplicationServer

datatype MICError = MICLengthError nat | ErrMICComputeFailed | ErrMICMismatch

datatype CorruptCause =
  ErrAppKeyEnvelopeNotFound | ErrAppKeyNotFound
  | ErrNwkKeyEnvelopeNotFound | ErrNwkKeyNotFound

text \<open>
  Every error return of the two handlers is a constructor; a Go \<open>panic\<close> is the
  value \<open>Panic\<close>. \<open>ErrRegistry\<close> stands for whatever error the registry lookup
  returns other than "not found".
\<close>

datatype error =
  ErrUnsupportedLoRaWANMACVersion MACVersion
  | ErrMissingDevAddr
  | ErrMissingPayload
  | ErrUnmarshalPayloadFailed
  | ErrUnsupportedLoRaWANVersion Major
  | ErrWrongPayloadType MType
  | ErrMissingJoinRequest
  | ErrMissingDevEUI
  | ErrMissingJoinEUI
  | ErrDeviceNotFound
  | ErrRegistry string
  | ErrAddressMismatch Component
  | ErrUnknownAppEUI
  | ErrForwardJoinRequest
  | ErrMACVersionMismatch MACVersion MACVersion
  | ErrCorruptRegistry CorruptCause
  | ErrDevNonceTooSmall
  | ErrDevNonceTooHigh
  | ErrDevNonceReused
  | ErrMICCheckFailed MICError
  | ErrComputeMIC
  | ErrEncryptPayloadFailed
  | ErrMissingSessionKeyID
  | ErrNoSession
  | ErrSessionKeyIDMismatch
  | ErrAppSKeyEnvelopeNotFound
  | Panic string

subsection \<open>Collaborators and observable effects\<close>

text \<open>
  What a call does besides returning: the MIC computations and the encryption it asks
  of the crypto package (with the key handed over), the device it hands to
  \<open>dev.Store()\<close>, and the error line it logs, in the order they happen.
\<close>

datatype event =
  EvComputeJoinRequestMIC AES128Key
  | EvComputeJoinAcceptMIC AES128Key
  | EvComputeLegacyJoinAcceptMIC AES128Key
  | EvEncryptJoinAccept AES128Key
  | EvStore Device
  | EvLogError string EndDeviceIdentifiers string

text \<open>
  The packages the handlers call and that are not part of the source under study are
  parameters: the registry (\<open>'r\<close> is its state), the LoRaWAN codec, the version
  comparison, the clock and the crypto primitives. A primitive that returns an error
  in Go returns \<open>None\<close>; \<open>store\<close> returns its error, if any, and the registry as
  the call leaves it. The registry hands out a device by value: what a handler writes
  into it reaches the registry through \<open>store\<close> only.
\<close>

record 'r env =
  findByIdentifiers :: "'r \<Rightarrow> EndDeviceIdentifiers \<Rightarrow> error + Device"
  store :: "'r \<Rightarrow> Device \<Rightarrow> string option \<times> 'r"
  now_utc :: time
  compareMACVersion :: "MACVersion \<Rightarrow> MACVersion \<Rightarrow> int"
  unmarshalLoRaWAN :: "bytes \<Rightarrow> Message option"
  marshalLoRaWAN :: "Message \<Rightarrow> bytes option"
  appendMHDR :: "MHDR \<Rightarrow> bytes \<Rightarrow> bytes option"
  appendJoinAccept :: "JoinAcceptPayload \<Rightarrow> bytes \<Rightarrow> bytes option"
  ComputeJoinRequestMIC :: "AES128Key \<Rightarrow> bytes \<Rightarrow> MIC option"
  ComputeJoinAcceptMIC :: "AES128Key \<Rightarrow> byte \<Rightarrow> EUI64 \<Rightarrow> DevNonce \<Rightarrow> bytes \<Rightarrow> MIC option"
  ComputeLegacyJoinAcceptMIC :: "AES128Key \<Rightarrow> bytes \<Rightarrow> MIC option"
  EncryptJoinAccept :: "AES128Key \<Rightarrow> bytes \<Rightarrow> bytes option"
  DeriveJSIntKey :: "AES128Key \<Rightarrow> EUI64 \<Rightarrow> AES128Key"
  DeriveFNwkSIntKey :: "AES128Key \<Rightarrow> JoinNonce \<Rightarrow> EUI64 \<Rightarrow> DevNonce \<Rightarrow> AES128Key"
  DeriveSNwkSIntKey :: "AES128Key \<Rightarrow> JoinNonce \<Rightarrow> EUI64 \<Rightarrow> DevNonce \<Rightarrow> AES128Key"
  DeriveNwkSEncKey :: "AES128Key \<Rightarrow> JoinNonce \<Rightarrow> EUI64 \<Rightarrow> DevNonce \<Rightarrow> AES128Key"
  DeriveAppSKey :: "AES128Key \<Rightarrow> JoinNonce \<Rightarrow> EUI64 \<Rightarrow> DevNonce \<Rightarrow> AES128Key"
  DeriveLegacyNwkSKey :: "AES128Key \<Rightarrow> JoinNonce \<Rightarrow> NetID \<Rightarrow> DevNonce \<Rightarrow> AES128Key"
  DeriveLegacyAppSKey :: "AES128Key \<Rightarrow> JoinNonce \<Rightarrow> NetID \<Rightarrow> DevNonce \<Rightarrow> AES128Key"

text \<open>What a handler leaves behind: its return value, the registry and the events.\<close>

record ('r, 'a) outcome =
  result :: "error + 'a"
  registry :: 'r
  events :: "event list"

section \<open>GetAppSKey\<close>

text \<open>
  \<open>GetAppSKey\<close> reads the registry and returns; it neither stores nor calls crypto,
  so its model returns the result alone.
\<close>

text \<open>The identifiers the device is looked up by (lines 371 to 373).\<close>

definition devEUI_identifiers :: "EUI64 \<Rightarrow> EndDeviceIdentifiers" where
  "devEUI_identifiers e = \<lparr>device_id = [], application_id = [], ids_dev_eui = Some e,
               ids_join_eui = None, ids_dev_addr = None\<rparr>"

definition GetAppSKey ::
  "'r env \<Rightarrow> 'r \<Rightarrow> CallContext \<Rightarrow> SessionKeyRequest \<Rightarrow> error + AppSKeyResponse" where
  "GetAppSKey env reg ctx req =
    (if skr_dev_eui req = 0 then Inl ErrMissingDevEUI
     else if skr_session_key_id req = [] then Inl ErrMissingSessionKeyID
     else
       case findByIdentifiers env reg (devEUI_identifiers (skr_dev_eui req)) of
         Inl err \<Rightarrow> Inl err
       | Inr dev \<Rightarrow>
           if NetAddress ctx \<noteq> application_server_address dev
           then Inl (ErrAddressMismatch ApplicationServer)
           else
             case session dev of
               None \<Rightarrow> Inl ErrNoSession
             | Some s0 \<Rightarrow>
                 case (if session_key_id (session_keys s0) \<noteq> skr_session_key_id req
                       then (case session_fallback dev of
                               None \<Rightarrow> Inl ErrSessionKeyIDMismatch
                             | Some f \<Rightarrow>
                                 if session_key_id (session_keys f) \<noteq> skr_session_key_id req
                                 then Inl ErrSessionKeyIDMismatch
                                 else Inr f)
                       else Inr s0) of
                   Inl err \<Rightarrow> Inl err
                 | Inr s \<Rightarrow>
                     (case app_s_key (session_keys s) of
                        None \<Rightarrow> Inl ErrAppSKeyEnvelopeNotFound
                      | Some appSKey \<Rightarrow> Inr \<lparr>resp_app_s_key = appSKey\<rparr>))"

text \<open>
  The last step alone (lines 395 to 402), for stating what the call returns for a
  selected session.
\<close>

definition appSKey_of :: "Session \<Rightarrow> error + AppSKeyResponse" where
  "appSKey_of s =
    (case app_s_key (session_keys s) of
       None \<Rightarrow> Inl ErrAppSKeyEnvelopeNotFound
     | Some e \<Rightarrow> Inr \<lparr>resp_app_s_key = e\<rparr>)"

section \<open>HandleJoin\<close>

definition supportedMACVersions :: "MACVersion list" where
  "supportedMACVersions = [MAC_V1_0, MAC_V1_0_1, MAC_V1_0_2, MAC_V1_1]"

text \<open>The loop of lines 105 to 111.\<close>

fun version_supported :: "MACVersion list \<Rightarrow> MACVersion \<Rightarrow> bool" where
  "version_supported [] ver = False"
| "version_supported (v # vs) ver = (if v = ver then True else version_supported vs ver)"

fun mic_bytes :: "MIC \<Rightarrow> bytes" where
  "mic_bytes (m0, m1, m2, m3) = [m0, m1, m2, m3]"

text \<open>
  \<open>checkMIC\<close>: \<open>None\<close> is Go's \<open>nil\<close> error. After the length check the raw payload
  has 23 bytes, so the loop over \<open>i < 4\<close> compares the computed MIC with the four bytes
  from offset 19, which are all of \<open>drop 19 rawPayload\<close>.
\<close>

definition checkMIC :: "'r env \<Rightarrow> AES128Key \<Rightarrow> bytes \<Rightarrow> MICError option \<times> event list" where
  "checkMIC env k rawPayload =
    (if length rawPayload \<noteq> 23 then (Some (MICLengthError (length rawPayload)), [])
     else
       case ComputeJoinRequestMIC env k (take 19 rawPayload) of
         None \<Rightarrow> (Some ErrMICComputeFailed, [EvComputeJoinRequestMIC k])
       | Some computed \<Rightarrow>
           (if mic_bytes computed = drop 19 rawPayload then None else Some ErrMICMismatch,
            [EvComputeJoinRequestMIC k]))"

text \<open>
  Lines 103 to 162: the version gate, the required fields, the header and identifier
  checks. The result is \<open>(ver, devAddr, rawPayload, msg, pld)\<close>.
\<close>

definition HandleJoin_request ::
  "'r env \<Rightarrow> JoinRequest \<Rightarrow>
     error + (MACVersion \<times> DevAddr \<times> bytes \<times> Message \<times> JoinRequestPayload)" where
  "HandleJoin_request env req =
    (let ver = selected_mac_version req in
     if \<not> version_supported supportedMACVersions ver
     then Inl (ErrUnsupportedLoRaWANMACVersion ver)
     else
       case ids_dev_addr (end_device_ids req) of
         None \<Rightarrow> Inl ErrMissingDevAddr
       | Some devAddr \<Rightarrow>
           (case (case payload (req_payload req) of
                    Some p \<Rightarrow> Inr (req_payload req)
                  | None \<Rightarrow>
                      (case raw_payload req of
                         None \<Rightarrow> Inl ErrMissingPayload
                       | Some raw \<Rightarrow>
                           (case unmarshalLoRaWAN env raw of
                              None \<Rightarrow> Inl ErrUnmarshalPayloadFailed
                            | Some m \<Rightarrow> Inr m))) of
              Inl err \<Rightarrow> Inl err
            | Inr msg \<Rightarrow>
                if major (m_hdr msg) \<noteq> LORAWAN_R1
                then Inl (ErrUnsupportedLoRaWANVersion (major (m_hdr msg)))
                else if m_type (m_hdr msg) \<noteq> JOIN_REQUEST
                then Inl (ErrWrongPayloadType (m_type (m_hdr msg)))
                else
                  (case payload msg of
                     Some (Payload_JoinRequestPayload pld) \<Rightarrow>
                       if dev_eui pld = 0 then Inl ErrMissingDevEUI
                       else if join_eui pld = 0 then Inl ErrMissingJoinEUI
                       else
                         (case raw_payload req of
                            Some raw \<Rightarrow> Inr (ver, devAddr, raw, msg, pld)
                          | None \<Rightarrow>
                              (case marshalLoRaWAN env msg of
                                 None \<Rightarrow> Inl (Panic ''Failed to marshal join request payload'')
                               | Some raw \<Rightarrow> Inr (ver, devAddr, raw, msg, pld)))
                   | _ \<Rightarrow> Inl ErrMissingJoinRequest)))"

text \<open>
  Modelled from the spec: \<open>EUI64Prefix.Matches\<close> (package types) is not part of the
  source at hand. The spec: it "returns true when the top \<open>length_bits\<close> of \<open>eui\<close>
  equal the top \<open>length_bits\<close> of \<open>value\<close>".
\<close>

definition Matches :: "EUI64Prefix \<Rightarrow> EUI64 \<Rightarrow> bool" where
  "Matches p eui =
    (drop_bit (64 - prefix_length p) eui = drop_bit (64 - prefix_length p) (prefix_value p))"

text \<open>The loop of lines 178 to 184.\<close>

fun prefix_match :: "EUI64Prefix list \<Rightarrow> EUI64 \<Rightarrow> bool" where
  "prefix_match [] eui = False"
| "prefix_match (p # ps) eui = (if Matches p eui then True else prefix_match ps eui)"

text \<open>The identifiers the join is looked up by (lines 164 to 167).\<close>

definition join_identifiers :: "JoinRequestPayload \<Rightarrow> EndDeviceIdentifiers" where
  "join_identifiers pld =
    \<lparr>device_id = [], application_id = [], ids_dev_eui = Some (dev_eui pld),
     ids_join_eui = Some (join_eui pld), ids_dev_addr = None\<rparr>"

text \<open>
  Lines 172 to 209, on the device the registry returned: caller authentication, JoinEUI
  routing, version compatibility and the AppKey envelope. The result is the AppKey.
\<close>

definition HandleJoin_device ::
  "'r env \<Rightarrow> JoinServer \<Rightarrow> CallContext \<Rightarrow> MACVersion \<Rightarrow> JoinRequestPayload \<Rightarrow> Device \<Rightarrow>
     error + AES128Key" where
  "HandleJoin_device env js ctx ver pld dev =
    (if NetAddress ctx \<noteq> network_server_address dev
     then Inl (ErrAddressMismatch NetworkServer)
     else
       let match = prefix_match (euiPrefixes js) (join_eui pld) in
       if \<not> match \<and> lorawan_version dev = MAC_V1_0 then Inl ErrUnknownAppEUI
       else if \<not> match then Inl ErrForwardJoinRequest
       else if compareMACVersion env (lorawan_version dev) ver = - 1
       then Inl (ErrMACVersionMismatch (lorawan_version dev) ver)
       else
         case root_keys dev of
           None \<Rightarrow> Inl (ErrCorruptRegistry ErrAppKeyEnvelopeNotFound)
         | Some rk \<Rightarrow>
             (case app_key rk of
                None \<Rightarrow> Inl (ErrCorruptRegistry ErrAppKeyEnvelopeNotFound)
              | Some ke \<Rightarrow>
                  (case key ke of
                     None \<Rightarrow> Inl (ErrCorruptRegistry ErrAppKeyNotFound)
                   | Some k \<Rightarrow>
                       if k = 0 then Inl (ErrCorruptRegistry ErrAppKeyNotFound)
                       else Inr k)))"

text \<open>
  Lines 226 to 229: the low three bytes of \<open>NextJoinNonce\<close>, little-endian.
\<close>

definition joinNonce_of :: "uint32 \<Rightarrow> JoinNonce" where
  "joinNonce_of n = (ucast n, ucast (drop_bit 8 n), ucast (drop_bit 16 n))"

text \<open>
  Lines 211 to 241: the Join-Accept plaintext \<open>b\<close>. The slice starts empty (with
  capacity 17 or 33); a codec error panics.
\<close>

definition HandleJoin_accept ::
  "'r env \<Rightarrow> JoinRequest \<Rightarrow> Message \<Rightarrow> Device \<Rightarrow> DevAddr \<Rightarrow> error + (bytes \<times> JoinNonce)" where
  "HandleJoin_accept env req msg dev devAddr =
    (case appendMHDR env \<lparr>m_type = JOIN_ACCEPT, major = major (m_hdr msg)\<rparr> [] of
       None \<Rightarrow> Inl (Panic ''Failed to encode join accept MHDR'')
     | Some b1 \<Rightarrow>
         let jn = joinNonce_of (next_join_nonce dev) in
         case appendJoinAccept env
                \<lparr>ja_net_id = net_id req, ja_join_nonce = jn, ja_cf_list = cf_list req,
                 ja_dev_addr = devAddr, ja_dl_settings = downlink_settings req,
                 ja_rx_delay = rx_delay req\<rparr> b1 of
           None \<Rightarrow> Inl (Panic ''Failed to encode join accept MAC payload'')
         | Some b \<Rightarrow> Inr (b, jn))"

text \<open>Line 243: \<open>binary.LittleEndian.Uint16\<close> of the two DevNonce bytes.\<close>

fun devNonce_uint16 :: "DevNonce \<Rightarrow> uint16" where
  "devNonce_uint16 (b0, b1) = ucast b0 OR push_bit 8 (ucast b1)"

text \<open>The loop of lines 255 to 259; \<open>uint16(used)\<close> truncates.\<close>

fun nonce_used :: "uint16 \<Rightarrow> uint32 list \<Rightarrow> bool" where
  "nonce_used dn [] = False"
| "nonce_used dn (used # rest) = (if dn = ucast used then True else nonce_used dn rest)"

definition legacy_nonce_check :: "uint16 \<Rightarrow> Device \<Rightarrow> error + Device" where
  "legacy_nonce_check dn dev =
    (if nonce_used dn (used_dev_nonces dev) then Inl ErrDevNonceReused else Inr dev)"

text \<open>
  Lines 244 to 263: the replay check. \<open>dn + 1\<close> is an addition of \<open>uint16\<close>, converted
  to \<open>uint32\<close> afterwards; \<open>math.MaxUint32\<close> is \<open>0xFFFFFFFF\<close>.
\<close>

definition HandleJoin_nonce :: "MACVersion \<Rightarrow> uint16 \<Rightarrow> Device \<Rightarrow> error + Device" where
  "HandleJoin_nonce ver dn dev =
    (if \<not> disable_join_nonce_check dev then
       (case ver of
          MAC_V1_1 \<Rightarrow>
            if ucast dn < next_dev_nonce dev then Inl ErrDevNonceTooSmall
            else if next_dev_nonce dev = 0xFFFFFFFF then Inl ErrDevNonceTooHigh
            else Inr (dev\<lparr>next_dev_nonce := ucast (dn + 1)\<rparr>)
        | MAC_V1_0 \<Rightarrow> legacy_nonce_check dn dev
        | MAC_V1_0_1 \<Rightarrow> legacy_nonce_check dn dev
        | MAC_V1_0_2 \<Rightarrow> legacy_nonce_check dn dev
        | _ \<Rightarrow> Inl (Panic ''This statement is unreachable. Fix version check.''))
     else Inr dev)"


text \<open>An envelope with the empty KEK label around a derived key (\<open>keyPointer\<close>).\<close>

definition clear_envelope :: "AES128Key \<Rightarrow> KeyEnvelope option" where
  "clear_envelope k = Some \<lparr>key = Some k, kek_label = []\<rparr>"

text \<open>
  Lines 266 to 311, the 1.1 branch. \<open>b[1:]\<close> panics on an empty slice; \<open>b[:1]\<close> is the
  first byte. Each call of a primitive that can fail is recorded before its result is
  looked at.
\<close>

definition HandleJoin_v1_1 ::
  "'r env \<Rightarrow> JoinRequestPayload \<Rightarrow> bytes \<Rightarrow> Device \<Rightarrow> AES128Key \<Rightarrow> bytes \<Rightarrow> JoinNonce \<Rightarrow>
     (error + JoinResponse) \<times> event list" where
  "HandleJoin_v1_1 env pld rawPayload dev appKey b jn =
    (case (case root_keys dev of None \<Rightarrow> None | Some rk \<Rightarrow> nwk_key rk) of
       None \<Rightarrow> (Inl (ErrCorruptRegistry ErrNwkKeyEnvelopeNotFound), [])
     | Some ke \<Rightarrow>
         (case key ke of
            None \<Rightarrow> (Inl (ErrCorruptRegistry ErrNwkKeyNotFound), [])
          | Some nwkKey \<Rightarrow>
              if nwkKey = 0 then (Inl (ErrCorruptRegistry ErrNwkKeyNotFound), [])
              else
                (case checkMIC env nwkKey rawPayload of
                   (Some err, evs1) \<Rightarrow> (Inl (ErrMICCheckFailed err), evs1)
                 | (None, evs1) \<Rightarrow>
                     let jsIntKey = DeriveJSIntKey env nwkKey (dev_eui pld);
                         evs2 = evs1 @ [EvComputeJoinAcceptMIC jsIntKey]
                     in
                     (case ComputeJoinAcceptMIC env jsIntKey 0xff (join_eui pld)
                             (dev_nonce pld) b of
                        None \<Rightarrow> (Inl ErrComputeMIC, evs2)
                      | Some m \<Rightarrow>
                          if b = [] then (Inl (Panic ''slice bounds out of range''), evs2)
                          else
                            let evs3 = evs2 @ [EvEncryptJoinAccept nwkKey] in
                            (case EncryptJoinAccept env nwkKey (drop 1 b @ mic_bytes m) of
                               None \<Rightarrow> (Inl ErrEncryptPayloadFailed, evs3)
                             | Some enc \<Rightarrow>
                                 (Inr \<lparr>resp_raw_payload = take 1 b @ enc,
                                       resp_session_keys =
                                         \<lparr>session_key_id = [],
                                          f_nwk_s_int_key = clear_envelope
                                            (DeriveFNwkSIntKey env nwkKey jn (join_eui pld)
                                               (dev_nonce pld)),
                                          s_nwk_s_int_key = clear_envelope
                                            (DeriveSNwkSIntKey env nwkKey jn (join_eui pld)
                                               (dev_nonce pld)),
                                          nwk_s_enc_key = clear_envelope
                                            (DeriveNwkSEncKey env nwkKey jn (join_eui pld)
                                               (dev_nonce pld)),
                                          app_s_key = clear_envelope
                                            (DeriveAppSKey env appKey jn (join_eui pld)
                                               (dev_nonce pld))\<rparr>,
                                       lifetime = None\<rparr>, evs3))))))"

text \<open>Lines 312 to 339, the branch of 1.0, 1.0.1 and 1.0.2, keyed by the AppKey.\<close>

definition HandleJoin_legacy ::
  "'r env \<Rightarrow> JoinRequest \<Rightarrow> JoinRequestPayload \<Rightarrow> bytes \<Rightarrow> AES128Key \<Rightarrow> bytes \<Rightarrow> JoinNonce \<Rightarrow>
     (error + JoinResponse) \<times> event list" where
  "HandleJoin_legacy env req pld rawPayload appKey b jn =
    (case checkMIC env appKey rawPayload of
       (Some err, evs1) \<Rightarrow> (Inl (ErrMICCheckFailed err), evs1)
     | (None, evs1) \<Rightarrow>
         let evs2 = evs1 @ [EvComputeLegacyJoinAcceptMIC appKey] in
         (case ComputeLegacyJoinAcceptMIC env appKey b of
            None \<Rightarrow> (Inl ErrComputeMIC, evs2)
          | Some m \<Rightarrow>
              if b = [] then (Inl (Panic ''slice bounds out of range''), evs2)
              else
                let evs3 = evs2 @ [EvEncryptJoinAccept appKey] in
                (case EncryptJoinAccept env appKey (drop 1 b @ mic_bytes m) of
                   None \<Rightarrow> (Inl ErrEncryptPayloadFailed, evs3)
                 | Some enc \<Rightarrow>
                     (Inr \<lparr>resp_raw_payload = take 1 b @ enc,
                           resp_session_keys =
                             \<lparr>session_key_id = [],
                              f_nwk_s_int_key = clear_envelope
                                (DeriveLegacyNwkSKey env appKey jn (net_id req) (dev_nonce pld)),
                              s_nwk_s_int_key = None,
                              nwk_s_enc_key = None,
                              app_s_key = clear_envelope
                                (DeriveLegacyAppSKey env appKey jn (net_id req) (dev_nonce pld))\<rparr>,
                           lifetime = None\<rparr>, evs3))))"

text \<open>The \<open>switch ver\<close> of lines 265 to 342.\<close>

definition HandleJoin_response ::
  "'r env \<Rightarrow> JoinRequest \<Rightarrow> MACVersion \<Rightarrow> JoinRequestPayload \<Rightarrow> bytes \<Rightarrow> Device \<Rightarrow> AES128Key \<Rightarrow>
     bytes \<Rightarrow> JoinNonce \<Rightarrow> (error + JoinResponse) \<times> event list" where
  "HandleJoin_response env req ver pld rawPayload dev appKey b jn =
    (case ver of
       MAC_V1_1 \<Rightarrow> HandleJoin_v1_1 env pld rawPayload dev appKey b jn
     | MAC_V1_0 \<Rightarrow> HandleJoin_legacy env req pld rawPayload appKey b jn
     | MAC_V1_0_1 \<Rightarrow> HandleJoin_legacy env req pld rawPayload appKey b jn
     | MAC_V1_0_2 \<Rightarrow> HandleJoin_legacy env req pld rawPayload appKey b jn
     | _ \<Rightarrow> (Inl (Panic ''This statement is unreachable. Fix version check.''), []))"

text \<open>
  Lines 164 to 342 on a validated request: everything between the validation and the
  commit. On success the result is the device as the replay check left it, the
  numeric DevNonce and the response.
\<close>

definition HandleJoin_session ::
  "'r env \<Rightarrow> JoinServer \<Rightarrow> 'r \<Rightarrow> CallContext \<Rightarrow> JoinRequest \<Rightarrow>
     MACVersion \<Rightarrow> DevAddr \<Rightarrow> bytes \<Rightarrow> Message \<Rightarrow> JoinRequestPayload \<Rightarrow>
     (error + (Device \<times> uint16 \<times> JoinResponse)) \<times> event list" where
  "HandleJoin_session env js reg ctx req ver devAddr rawPayload msg pld =
    (case findByIdentifiers env reg (join_identifiers pld) of
       Inl err \<Rightarrow> (Inl err, [])
     | Inr dev \<Rightarrow>
         (case HandleJoin_device env js ctx ver pld dev of
            Inl err \<Rightarrow> (Inl err, [])
          | Inr appKey \<Rightarrow>
              (case HandleJoin_accept env req msg dev devAddr of
                 Inl err \<Rightarrow> (Inl err, [])
               | Inr (b, jn) \<Rightarrow>
                   let dn = devNonce_uint16 (dev_nonce pld) in
                   (case HandleJoin_nonce ver dn dev of
                      Inl err \<Rightarrow> (Inl err, [])
                    | Inr dev1 \<Rightarrow>
                        (case HandleJoin_response env req ver pld rawPayload dev1 appKey b jn of
                           (Inl err, evs) \<Rightarrow> (Inl err, evs)
                         | (Inr resp, evs) \<Rightarrow> (Inr (dev1, dn, resp), evs))))))"

text \<open>Lines 101 to 342: the call up to the assembled response.\<close>

definition HandleJoin_prepare ::
  "'r env \<Rightarrow> JoinServer \<Rightarrow> 'r \<Rightarrow> CallContext \<Rightarrow> JoinRequest \<Rightarrow>
     (error + (Device \<times> DevAddr \<times> uint16 \<times> JoinResponse)) \<times> event list" where
  "HandleJoin_prepare env js reg ctx req =
    (case HandleJoin_request env req of
       Inl err \<Rightarrow> (Inl err, [])
     | Inr (ver, devAddr, rawPayload, msg, pld) \<Rightarrow>
         (case HandleJoin_session env js reg ctx req ver devAddr rawPayload msg pld of
            (Inl err, evs) \<Rightarrow> (Inl err, evs)
          | (Inr (dev1, dn, resp), evs) \<Rightarrow> (Inr (dev1, devAddr, dn, resp), evs)))"

text \<open>Lines 344 to 350: what the call writes into the device before storing it.\<close>

definition HandleJoin_commit ::
  "'r env \<Rightarrow> DevAddr \<Rightarrow> uint16 \<Rightarrow> JoinResponse \<Rightarrow> Device \<Rightarrow> Device" where
  "HandleJoin_commit env devAddr dn resp dev =
    dev\<lparr>used_dev_nonces := used_dev_nonces dev @ [ucast dn],
        next_join_nonce := next_join_nonce dev + 1,
        session := Some \<lparr>started_at = now_utc env, dev_addr = devAddr,
                         session_keys = resp_session_keys resp\<rparr>\<rparr>"

text \<open>
  \<open>HandleJoin\<close>: an error leaves the registry as it was; otherwise the device is
  stored (lines 351 to 358), a store error is logged, and the response is returned.
\<close>

definition HandleJoin ::
  "'r env \<Rightarrow> JoinServer \<Rightarrow> 'r \<Rightarrow> CallContext \<Rightarrow> JoinRequest \<Rightarrow> ('r, JoinResponse) outcome" where
  "HandleJoin env js reg ctx req =
    (case HandleJoin_prepare env js reg ctx req of
       (Inl err, evs) \<Rightarrow> \<lparr>result = Inl err, registry = reg, events = evs\<rparr>
     | (Inr (dev1, devAddr, dn, resp), evs) \<Rightarrow>
         let dev2 = HandleJoin_commit env devAddr dn resp dev1 in
         (case store env reg dev2 of
            (Some err, reg') \<Rightarrow>
              \<lparr>result = Inr resp, registry = reg',
               events = evs @ [EvStore dev2,
                               EvLogError ''Failed to update device'' (ids dev2) err]\<rparr>
          | (None, reg') \<Rightarrow>
              \<lparr>result = Inr resp, registry = reg', events = evs @ [EvStore dev2]\<rparr>))"

text \<open>The devices handed to \<open>Store\<close> and the lines logged, read off the events.\<close>

fun stored :: "event list \<Rightarrow> Device list" where
  "stored [] = []"
| "stored (EvStore d # evs) = d # stored evs"
| "stored (e # evs) = stored evs"

fun logged :: "event list \<Rightarrow> string list" where
  "logged [] = []"
| "logged (EvLogError m i e # evs) = m # logged evs"
| "logged (e # evs) = logged evs"

section \<open>The wire lengths of the Join-Accept\<close>

text \<open>
  Modelled from the spec: the codec (\<open>MHDR.AppendLoRaWAN\<close>,
  \<open>JoinAcceptPayload.AppendLoRaWAN\<close> of package ttnpb) and \<open>crypto.EncryptJoinAccept\<close>
  are not part of the source at hand. The spec gives the plaintext as
  "MHDR(1) || JoinNonce(3) || NetID(3) || DevAddr(4) || DLSettings(1) || RxDelay(1) ||
  [CFList(16)]" and the encryption as the ECB transformation of the plaintext after the
  MHDR with the MIC appended, which keeps the length. So: the MHDR adds one byte, the
  payload 12 bytes, or 28 with a CFList, and the ciphertext is as long as its input.
\<close>

definition wire_lengths :: "'r env \<Rightarrow> bool" where
  "wire_lengths env =
    ((\<forall>h b b'. appendMHDR env h b = Some b' \<longrightarrow> length b' = length b + 1) \<and>
     (\<forall>p b b'. appendJoinAccept env p b = Some b' \<longrightarrow>
        length b' = length b + (if ja_cf_list p = None then 12 else 28)) \<and>
     (\<forall>k p c. EncryptJoinAccept env k p = Some c \<longrightarrow> length c = length p))"

section \<open>A small deployment\<close>

text \<open>
  One instance of the collaborators, to run the handlers on: the registry is a list of
  devices, looked up by DevEUI (and JoinEUI when given) and stored by DevEUI; the
  codec lays the Join-Accept out with the lengths above; the crypto primitives are
  stand-ins (a fixed MIC, an encryption that returns its input).
\<close>

definition same_device :: "EndDeviceIdentifiers \<Rightarrow> Device \<Rightarrow> bool" where
  "same_device i d =
    (ids_dev_eui (ids d) = ids_dev_eui i \<and>
     (case ids_join_eui i of None \<Rightarrow> True | Some j \<Rightarrow> ids_join_eui (ids d) = Some j))"

fun list_find :: "Device list \<Rightarrow> EndDeviceIdentifiers \<Rightarrow> error + Device" where
  "list_find [] i = Inl ErrDeviceNotFound"
| "list_find (d # ds) i = (if same_device i d then Inr d else list_find ds i)"

fun list_store :: "Device list \<Rightarrow> Device \<Rightarrow> string option \<times> Device list" where
  "list_store ds d =
    (None, map (\<lambda>x. if ids_dev_eui (ids x) = ids_dev_eui (ids d) then d else x) ds)"

fun list_store_conflict :: "Device list \<Rightarrow> Device \<Rightarrow> string option \<times> Device list" where
  "list_store_conflict ds d = (Some ''conflict'', ds)"

fun version_rank :: "MACVersion \<Rightarrow> nat" where
  "version_rank MAC_UNKNOWN = 0"
| "version_rank MAC_V1_0 = 1"
| "version_rank MAC_V1_0_1 = 2"
| "version_rank MAC_V1_0_2 = 3"
| "version_rank MAC_V1_0_3 = 4"
| "version_rank MAC_V1_1 = 5"

definition rank_compare :: "MACVersion \<Rightarrow> MACVersion \<Rightarrow> int" where
  "rank_compare a b =
    (if version_rank a < version_rank b then - 1
     else if version_rank b < version_rank a then 1 else 0)"

fun plain_appendMHDR :: "MHDR \<Rightarrow> bytes \<Rightarrow> bytes option" where
  "plain_appendMHDR h b = Some (b @ [0x20])"

fun plain_appendJoinAccept :: "JoinAcceptPayload \<Rightarrow> bytes \<Rightarrow> bytes option" where
  "plain_appendJoinAccept p b =
    (case ja_join_nonce p of
       (j0, j1, j2) \<Rightarrow>
         Some (b @ [j0, j1, j2] @ [0, 0, 0, 0, 0, 0, 0, 0, 0] @
               (case ja_cf_list p of
                  None \<Rightarrow> []
                | Some c \<Rightarrow> [0, 0, 0, 0, 0, 0, 0, 0, 0, 0, 0, 0, 0, 0, 0, 0])))"

definition deployment :: "Device list env" where
  "deployment =
    \<lparr>findByIdentifiers = list_find,
     store = list_store,
     now_utc = 1000,
     compareMACVersion = rank_compare,
     unmarshalLoRaWAN = (\<lambda>raw. None),
     marshalLoRaWAN = (\<lambda>m. None),
     appendMHDR = plain_appendMHDR,
     appendJoinAccept = plain_appendJoinAccept,
     ComputeJoinRequestMIC = (\<lambda>k p. Some (1, 2, 3, 4)),
     ComputeJoinAcceptMIC = (\<lambda>k t j n p. Some (5, 6, 7, 8)),
     ComputeLegacyJoinAcceptMIC = (\<lambda>k p. Some (5, 6, 7, 8)),
     EncryptJoinAccept = (\<lambda>k p. Some p),
     DeriveJSIntKey = (\<lambda>k e. k + 1),
     DeriveFNwkSIntKey = (\<lambda>k j e n. k + 2),
     DeriveSNwkSIntKey = (\<lambda>k j e n. k + 3),
     DeriveNwkSEncKey = (\<lambda>k j e n. k + 4),
     DeriveAppSKey = (\<lambda>k j e n. k + 5),
     DeriveLegacyNwkSKey = (\<lambda>k j e n. k + 6),
     DeriveLegacyAppSKey = (\<lambda>k j e n. k + 7)\<rparr>"

definition deployment_conflict :: "Device list env" where
  "deployment_conflict = deployment\<lparr>store := list_store_conflict\<rparr>"

definition server :: JoinServer where
  "server = \<lparr>euiPrefixes = [\<lparr>prefix_value = 0x42FFFFFFFFFFFFFF, prefix_length = 8\<rparr>]\<rparr>"

definition ns_call :: CallContext where
  "ns_call = \<lparr>NetAddress = ''ns.example''\<rparr>"

definition as_call :: CallContext where
  "as_call = \<lparr>NetAddress = ''as.example''\<rparr>"

definition old_session :: Session where
  "old_session =
    \<lparr>started_at = 1, dev_addr = 0x0A0B0C0D,
     session_keys = \<lparr>session_key_id = ''first'', f_nwk_s_int_key = None,
                     s_nwk_s_int_key = None, nwk_s_enc_key = None,
                     app_s_key = clear_envelope 0x99\<rparr>\<rparr>"

text \<open>A 1.1 device with both root keys, its counters given.\<close>

definition device11 :: "uint32 \<Rightarrow> bool \<Rightarrow> Session option \<Rightarrow> Device" where
  "device11 next_dn no_check s =
    \<lparr>ids = \<lparr>device_id = ''dev'', application_id = ''app'',
             ids_dev_eui = Some 0x4242FFFFFFFFFFFF, ids_join_eui = Some 0x42FFFFFFFFFFFFFF,
             ids_dev_addr = None\<rparr>,
     network_server_address = ''ns.example'',
     application_server_address = ''as.example'',
     lorawan_version = MAC_V1_1,
     root_keys = Some \<lparr>app_key = clear_envelope 0x000102030405060708090A0B0C0D0E0F,
                       nwk_key = clear_envelope 0x101112131415161718191A1B1C1D1E1F\<rparr>,
     next_dev_nonce = next_dn,
     used_dev_nonces = [],
     next_join_nonce = 1,
     disable_join_nonce_check = no_check,
     session = s,
     session_fallback = None\<rparr>"

text \<open>
  A join request for that device: both the raw 23 bytes and the parsed payload, the
  selected version, the two DevNonce bytes and the optional CFList given.
\<close>

definition join_request :: "MACVersion \<Rightarrow> byte \<Rightarrow> byte \<Rightarrow> CFList option \<Rightarrow> JoinRequest" where
  "join_request ver n0 n1 cfl =
    \<lparr>raw_payload = Some [0x00,
                         0xFF, 0xFF, 0xFF, 0xFF, 0xFF, 0xFF, 0xFF, 0x42,
                         0xFF, 0xFF, 0xFF, 0xFF, 0xFF, 0xFF, 0x42, 0x42,
                         n0, n1, 1, 2, 3, 4],
     req_payload =
       \<lparr>m_hdr = \<lparr>m_type = JOIN_REQUEST, major = LORAWAN_R1\<rparr>,
        mic = [1, 2, 3, 4],
        payload = Some (Payload_JoinRequestPayload
                          \<lparr>join_eui = 0x42FFFFFFFFFFFFFF, dev_eui = 0x4242FFFFFFFFFFFF,
                           dev_nonce = (n0, n1)\<rparr>)\<rparr>,
     end_device_ids = \<lparr>device_id = [], application_id = [], ids_dev_eui = None,
                       ids_join_eui = None, ids_dev_addr = Some 0x01020304\<rparr>,
     selected_mac_version = ver,
     net_id = 0x000001,
     downlink_settings = \<lparr>rx1_dr_offset = 0, rx2_dr = 0, opt_neg = True\<rparr>,
     rx_delay = 1,
     cf_list = cfl\<rparr>"

definition some_cf_list :: CFList where
  "some_cf_list = \<lparr>cfl_type = FREQUENCIES, freq = [8671000], ch_masks = []\<rparr>"


text \<open>
  The device after a second join: the session of the first join is the fallback.
\<close>

definition rotated_device :: Device where
  "rotated_device =
    (device11 1 False
       (Some \<lparr>started_at = 2, dev_addr = 0x01020304,
              session_keys = \<lparr>session_key_id = ''second'', f_nwk_s_int_key = None,
                              s_nwk_s_int_key = None, nwk_s_enc_key = None,
                              app_s_key = clear_envelope 0x77\<rparr>\<rparr>))
    \<lparr>session_fallback := Some old_session\<rparr>"

section \<open>Properties\<close>

lemmas HandleJoin_defs =
  HandleJoin_def HandleJoin_prepare_def HandleJoin_request_def HandleJoin_session_def
  supportedMACVersions_def join_identifiers_def HandleJoin_device_def Matches_def
  clear_envelope_def HandleJoin_accept_def joinNonce_of_def HandleJoin_nonce_def
  legacy_nonce_check_def HandleJoin_response_def HandleJoin_v1_1_def HandleJoin_legacy_def
  checkMIC_def HandleJoin_commit_def Let_def

lemmas deployment_defs =
  join_request_def deployment_def deployment_conflict_def device11_def server_def
  ns_call_def as_call_def same_device_def rank_compare_def old_session_def some_cf_list_def

subsection \<open>Events before the commit\<close>

lemma stored_append: "stored (xs @ ys) = stored xs @ stored ys"
  by (induction xs rule: stored.induct) simp_all

lemma logged_append: "logged (xs @ ys) = logged xs @ logged ys"
  by (induction xs rule: logged.induct) simp_all

lemma checkMIC_events:
  "checkMIC env k raw = (r, evs) \<Longrightarrow> stored evs = [] \<and> logged evs = []"
  by (auto simp: checkMIC_def split: if_splits option.splits)

lemma HandleJoin_v1_1_events:
  "HandleJoin_v1_1 env pld raw dev appKey b jn = (r, evs) \<Longrightarrow>
     stored evs = [] \<and> logged evs = []"
  by (auto simp: HandleJoin_v1_1_def Let_def stored_append logged_append
      dest!: checkMIC_events split: if_splits option.splits prod.splits)

lemma HandleJoin_legacy_events:
  "HandleJoin_legacy env req pld raw appKey b jn = (r, evs) \<Longrightarrow>
     stored evs = [] \<and> logged evs = []"
  by (auto simp: HandleJoin_legacy_def Let_def stored_append logged_append
      dest!: checkMIC_events split: if_splits option.splits prod.splits)

lemma HandleJoin_response_events:
  "HandleJoin_response env req ver pld raw dev appKey b jn = (r, evs) \<Longrightarrow>
     stored evs = [] \<and> logged evs = []"
  by (cases ver) (auto simp: HandleJoin_response_def
      dest: HandleJoin_v1_1_events HandleJoin_legacy_events)

lemma HandleJoin_session_events:
  "HandleJoin_session env js reg ctx req ver devAddr raw msg pld = (r, evs) \<Longrightarrow>
     stored evs = [] \<and> logged evs = []"
  by (auto simp: HandleJoin_session_def Let_def
      dest: HandleJoin_response_events split: sum.splits prod.splits)

lemma HandleJoin_prepare_events:
  "HandleJoin_prepare env js reg ctx req = (r, evs) \<Longrightarrow> stored evs = [] \<and> logged evs = []"
  by (auto simp: HandleJoin_prepare_def
      dest: HandleJoin_session_events split: sum.splits prod.splits)

subsection \<open>What a successful call went through\<close>

lemma HandleJoin_nonce_Inr:
  "HandleJoin_nonce ver dn dev = Inr dev1 \<Longrightarrow>
     dev1 = (if \<not> disable_join_nonce_check dev \<and> ver = MAC_V1_1
             then dev\<lparr>next_dev_nonce := ucast (dn + 1)\<rparr> else dev)"
  by (cases ver) (auto simp: HandleJoin_nonce_def legacy_nonce_check_def split: if_splits)

lemma HandleJoin_prepare_Inr:
  assumes "HandleJoin_prepare env js reg ctx req = (Inr (dev1, devAddr, dn, resp), evs)"
  shows "\<exists>ver raw msg pld dev appKey b jn.
           HandleJoin_request env req = Inr (ver, devAddr, raw, msg, pld) \<and>
           findByIdentifiers env reg (join_identifiers pld) = Inr dev \<and>
           HandleJoin_device env js ctx ver pld dev = Inr appKey \<and>
           HandleJoin_accept env req msg dev devAddr = Inr (b, jn) \<and>
           dn = devNonce_uint16 (dev_nonce pld) \<and>
           HandleJoin_nonce ver dn dev = Inr dev1 \<and>
           HandleJoin_response env req ver pld raw dev1 appKey b jn = (Inr resp, evs)"
  using assms
  by (auto simp: HandleJoin_prepare_def HandleJoin_session_def Let_def
      split: sum.splits prod.splits)

lemma HandleJoin_Inr:
  assumes "result (HandleJoin env js reg ctx req) = Inr resp"
  shows "\<exists>dev1 devAddr dn evs.
           HandleJoin_prepare env js reg ctx req = (Inr (dev1, devAddr, dn, resp), evs) \<and>
           stored (events (HandleJoin env js reg ctx req)) =
             [HandleJoin_commit env devAddr dn resp dev1] \<and>
           registry (HandleJoin env js reg ctx req) =
             snd (store env reg (HandleJoin_commit env devAddr dn resp dev1))"
  using assms
  by (auto simp: HandleJoin_def Let_def stored_append dest: HandleJoin_prepare_events
      split: sum.splits prod.splits option.splits)

text \<open>
  A successful call validated its request, found a device, and handed to \<open>Store\<close>
  exactly one device: the one found, with the replay counter advanced when the check
  ran on a 1.1 join, and with the commit's three writes.
\<close>

lemma HandleJoin_success:
  assumes "result (HandleJoin env js reg ctx req) = Inr resp"
  shows "\<exists>ver devAddr raw msg pld dev.
           HandleJoin_request env req = Inr (ver, devAddr, raw, msg, pld) \<and>
           findByIdentifiers env reg (join_identifiers pld) = Inr dev \<and>
           stored (events (HandleJoin env js reg ctx req)) =
             [HandleJoin_commit env devAddr (devNonce_uint16 (dev_nonce pld)) resp
                (if \<not> disable_join_nonce_check dev \<and> ver = MAC_V1_1
                 then dev\<lparr>next_dev_nonce := ucast (devNonce_uint16 (dev_nonce pld) + 1)\<rparr>
                 else dev)] \<and>
           registry (HandleJoin env js reg ctx req) =
             snd (store env reg
               (HandleJoin_commit env devAddr (devNonce_uint16 (dev_nonce pld)) resp
                 (if \<not> disable_join_nonce_check dev \<and> ver = MAC_V1_1
                  then dev\<lparr>next_dev_nonce := ucast (devNonce_uint16 (dev_nonce pld) + 1)\<rparr>
                  else dev)))"
proof -
  from HandleJoin_Inr [OF assms] obtain dev1 devAddr dn evs where
    p: "HandleJoin_prepare env js reg ctx req = (Inr (dev1, devAddr, dn, resp), evs)"
    and s: "stored (events (HandleJoin env js reg ctx req)) =
              [HandleJoin_commit env devAddr dn resp dev1]"
    and r: "registry (HandleJoin env js reg ctx req) =
              snd (store env reg (HandleJoin_commit env devAddr dn resp dev1))"
    by blast
  from HandleJoin_prepare_Inr [OF p] obtain ver raw msg pld dev where
    q: "HandleJoin_request env req = Inr (ver, devAddr, raw, msg, pld)"
    and f: "findByIdentifiers env reg (join_identifiers pld) = Inr dev"
    and d: "dn = devNonce_uint16 (dev_nonce pld)"
    and n: "HandleJoin_nonce ver dn dev = Inr dev1"
    by blast
  from HandleJoin_nonce_Inr [OF n] d have
    "dev1 = (if \<not> disable_join_nonce_check dev \<and> ver = MAC_V1_1
             then dev\<lparr>next_dev_nonce := ucast (devNonce_uint16 (dev_nonce pld) + 1)\<rparr>
             else dev)"
    by simp
  with q f s r d show ?thesis by blast
qed


subsection \<open>Error paths\<close>

text \<open>
  Claim C5. Whenever \<open>HandleJoin\<close> returns an error, whichever it is, the registry is
  the one the call started from and no device was handed to \<open>Store\<close>.
\<close>

theorem HandleJoin_error_leaves_registry:
  assumes "result (HandleJoin env js reg ctx req) = Inl err"
  shows "registry (HandleJoin env js reg ctx req) = reg \<and>
         stored (events (HandleJoin env js reg ctx req)) = []"
  using assms
  by (auto simp: HandleJoin_def Let_def dest: HandleJoin_prepare_events
      split: sum.splits prod.splits option.splits)

text \<open>A 1.1 join whose DevNonce 5 is below the device's counter 7 is such a call.\<close>

theorem HandleJoin_error_leaves_registry_witness:
  "result (HandleJoin deployment server [device11 7 False None] ns_call
             (join_request MAC_V1_1 5 0 None)) = Inl ErrDevNonceTooSmall \<and>
   registry (HandleJoin deployment server [device11 7 False None] ns_call
             (join_request MAC_V1_1 5 0 None)) = [device11 7 False None] \<and>
   stored (events (HandleJoin deployment server [device11 7 False None] ns_call
             (join_request MAC_V1_1 5 0 None))) = []"
proof -
  have h: "result (HandleJoin deployment server [device11 7 False None] ns_call
             (join_request MAC_V1_1 5 0 None)) = Inl ErrDevNonceTooSmall"
    by (simp add: HandleJoin_defs deployment_defs)
  from h HandleJoin_error_leaves_registry [OF h] show ?thesis by (rule conjI)
qed

text \<open>
  Claim C6. A request that passed the checks of lines 103 to 162 and whose device the
  registry returned, from a caller whose address is not the device's Network Server
  address, gets \<open>AddressMismatch\<close> for the Network Server; the call has no event at
  all, so no MIC was computed, with no key of the device, and nothing was stored.
\<close>

theorem HandleJoin_address_mismatch:
  assumes "HandleJoin_request env req = Inr (ver, devAddr, raw, msg, pld)"
    and "findByIdentifiers env reg (join_identifiers pld) = Inr dev"
    and "NetAddress ctx \<noteq> network_server_address dev"
  shows "HandleJoin env js reg ctx req =
           \<lparr>result = Inl (ErrAddressMismatch NetworkServer), registry = reg, events = []\<rparr>"
  using assms
  by (simp add: HandleJoin_def HandleJoin_prepare_def HandleJoin_session_def
      HandleJoin_device_def)

text \<open>The Application Server's address on a join for a device of \<open>ns.example\<close>.\<close>

theorem HandleJoin_address_mismatch_witness:
  "\<exists>ver devAddr raw msg pld dev.
     HandleJoin_request deployment (join_request MAC_V1_0_2 5 0 None) =
       Inr (ver, devAddr, raw, msg, pld) \<and>
     findByIdentifiers deployment [device11 0 False None] (join_identifiers pld) = Inr dev \<and>
     NetAddress as_call \<noteq> network_server_address dev \<and>
     HandleJoin deployment server [device11 0 False None] as_call
       (join_request MAC_V1_0_2 5 0 None) =
       \<lparr>result = Inl (ErrAddressMismatch NetworkServer),
        registry = [device11 0 False None], events = []\<rparr>"
proof -
  obtain ver devAddr raw msg pld where
    q: "HandleJoin_request deployment (join_request MAC_V1_0_2 5 0 None) =
          Inr (ver, devAddr, raw, msg, pld)"
    and p: "pld = \<lparr>join_eui = 0x42FFFFFFFFFFFFFF, dev_eui = 0x4242FFFFFFFFFFFF,
                   dev_nonce = (5, 0)\<rparr>"
    by (simp add: HandleJoin_defs deployment_defs)
  have f: "findByIdentifiers deployment [device11 0 False None] (join_identifiers pld) =
             Inr (device11 0 False None)"
    by (simp add: p HandleJoin_defs deployment_defs)
  have a: "NetAddress as_call \<noteq> network_server_address (device11 0 False None)"
    by (simp add: deployment_defs)
  from q f a HandleJoin_address_mismatch [OF q f a] show ?thesis by blast
qed

text \<open>
  Claim C7. Once the response is assembled (lines 101 to 342 returned it), a failing
  \<open>Store\<close> changes nothing for the caller: the response comes back without error; the
  device was handed to \<open>Store\<close> once and the failure was logged, once.
\<close>

theorem HandleJoin_store_failure:
  assumes "HandleJoin_prepare env js reg ctx req = (Inr (dev1, devAddr, dn, resp), evs)"
    and "fst (store env reg (HandleJoin_commit env devAddr dn resp dev1)) = Some err"
  shows "result (HandleJoin env js reg ctx req) = Inr resp \<and>
         stored (events (HandleJoin env js reg ctx req)) =
           [HandleJoin_commit env devAddr dn resp dev1] \<and>
         logged (events (HandleJoin env js reg ctx req)) = [''Failed to update device'']"
  using assms HandleJoin_prepare_events [OF assms(1)]
  by (auto simp: HandleJoin_def Let_def stored_append logged_append split: prod.splits option.splits)

text \<open>The same join against a registry whose store reports a conflict.\<close>

theorem HandleJoin_store_failure_witness:
  "\<exists>dev1 devAddr dn resp evs.
     HandleJoin_prepare deployment_conflict server [device11 0 False None] ns_call
       (join_request MAC_V1_1 5 0 None) = (Inr (dev1, devAddr, dn, resp), evs) \<and>
     fst (store deployment_conflict [device11 0 False None]
            (HandleJoin_commit deployment_conflict devAddr dn resp dev1)) = Some ''conflict'' \<and>
     result (HandleJoin deployment_conflict server [device11 0 False None] ns_call
       (join_request MAC_V1_1 5 0 None)) = Inr resp \<and>
     logged (events (HandleJoin deployment_conflict server [device11 0 False None] ns_call
       (join_request MAC_V1_1 5 0 None))) = [''Failed to update device'']"
proof -
  obtain dev1 devAddr dn resp evs where
    p: "HandleJoin_prepare deployment_conflict server [device11 0 False None] ns_call
          (join_request MAC_V1_1 5 0 None) = (Inr (dev1, devAddr, dn, resp), evs)"
    by (simp add: HandleJoin_defs deployment_defs)
  have f: "fst (store deployment_conflict [device11 0 False None]
            (HandleJoin_commit deployment_conflict devAddr dn resp dev1)) = Some ''conflict''"
    by (simp add: deployment_defs)
  from p f HandleJoin_store_failure [OF p f] show ?thesis by blast
qed


subsection \<open>GetAppSKey\<close>

text \<open>
  Claim C8. For a request with a non-zero DevEUI and a non-empty SessionKeyID whose
  device the registry returns, from the device's Application Server: without a session
  the call fails with \<open>NoSession\<close>; a session with the requested id is selected;
  otherwise the fallback is, when it is there and has the requested id, and the call
  fails with \<open>SessionKeyIDMismatch\<close> when it is missing or has another id. The selected
  session's AppSKey envelope is returned, or \<open>AppSKeyEnvelopeNotFound\<close> when it has
  none.
\<close>

theorem GetAppSKey_session_selection:
  assumes "skr_dev_eui req \<noteq> 0"
    and "skr_session_key_id req \<noteq> []"
    and "findByIdentifiers env reg (devEUI_identifiers (skr_dev_eui req)) = Inr dev"
    and "NetAddress ctx = application_server_address dev"
  shows "(session dev = None \<longrightarrow> GetAppSKey env reg ctx req = Inl ErrNoSession) \<and>
         (\<forall>s. session dev = Some s \<and> session_key_id (session_keys s) = skr_session_key_id req \<longrightarrow>
              GetAppSKey env reg ctx req = appSKey_of s) \<and>
         (\<forall>s. session dev = Some s \<and> session_key_id (session_keys s) \<noteq> skr_session_key_id req \<and>
              session_fallback dev = None \<longrightarrow>
              GetAppSKey env reg ctx req = Inl ErrSessionKeyIDMismatch) \<and>
         (\<forall>s f. session dev = Some s \<and> session_key_id (session_keys s) \<noteq> skr_session_key_id req \<and>
              session_fallback dev = Some f \<and>
              session_key_id (session_keys f) \<noteq> skr_session_key_id req \<longrightarrow>
              GetAppSKey env reg ctx req = Inl ErrSessionKeyIDMismatch) \<and>
         (\<forall>s f. session dev = Some s \<and> session_key_id (session_keys s) \<noteq> skr_session_key_id req \<and>
              session_fallback dev = Some f \<and>
              session_key_id (session_keys f) = skr_session_key_id req \<longrightarrow>
              GetAppSKey env reg ctx req = appSKey_of f) \<and>
         (\<forall>s. app_s_key (session_keys s) = None \<longrightarrow> appSKey_of s = Inl ErrAppSKeyEnvelopeNotFound) \<and>
         (\<forall>s e. app_s_key (session_keys s) = Some e \<longrightarrow> appSKey_of s = Inr \<lparr>resp_app_s_key = e\<rparr>)"
  using assms
  by (simp add: GetAppSKey_def appSKey_of_def devEUI_identifiers_def)

text \<open>The first session's id, asked for after a second join: the fallback answers.\<close>

theorem GetAppSKey_session_selection_witness:
  "GetAppSKey deployment [rotated_device] as_call
     \<lparr>skr_session_key_id = ''first'', skr_dev_eui = 0x4242FFFFFFFFFFFF\<rparr> =
   Inr \<lparr>resp_app_s_key = \<lparr>key = Some 0x99, kek_label = []\<rparr>\<rparr>"
proof -
  let ?req = "\<lparr>skr_session_key_id = ''first'', skr_dev_eui = 0x4242FFFFFFFFFFFF\<rparr>"
  have a: "skr_dev_eui ?req \<noteq> 0" by simp
  have b: "skr_session_key_id ?req \<noteq> []" by simp
  have c: "findByIdentifiers deployment [rotated_device] (devEUI_identifiers (skr_dev_eui ?req)) =
             Inr rotated_device"
    by (simp add: devEUI_identifiers_def rotated_device_def deployment_defs)
  have d: "NetAddress as_call = application_server_address rotated_device"
    by (simp add: rotated_device_def deployment_defs)
  from GetAppSKey_session_selection [OF a b c d] show ?thesis
    by (simp add: rotated_device_def deployment_defs appSKey_of_def clear_envelope_def)
qed

subsection \<open>The length of the Join-Accept\<close>

lemma HandleJoin_accept_length:
  assumes "wire_lengths env" and "HandleJoin_accept env req msg dev devAddr = Inr (b, jn)"
  shows "length b = (if cf_list req = None then 13 else 29)"
proof -
  from assms(2) obtain b1 where
    m: "appendMHDR env \<lparr>m_type = JOIN_ACCEPT, major = major (m_hdr msg)\<rparr> [] = Some b1"
    and p: "appendJoinAccept env
                \<lparr>ja_net_id = net_id req, ja_join_nonce = joinNonce_of (next_join_nonce dev),
                 ja_cf_list = cf_list req,
                 ja_dev_addr = devAddr, ja_dl_settings = downlink_settings req,
                 ja_rx_delay = rx_delay req\<rparr> b1 = Some b"
    by (auto simp: HandleJoin_accept_def Let_def split: option.splits)
  from assms(1) m have "length b1 = 1" unfolding wire_lengths_def by fastforce
  moreover from assms(1) p have "length b = length b1 + (if cf_list req = None then 12 else 28)"
    unfolding wire_lengths_def by fastforce
  ultimately show ?thesis by simp
qed

lemma HandleJoin_v1_1_length:
  assumes "wire_lengths env"
    and "HandleJoin_v1_1 env pld raw dev appKey b jn = (Inr resp, evs)"
  shows "length (resp_raw_payload resp) = length b + 4"
proof -
  from assms(2) obtain k m enc where
    e: "EncryptJoinAccept env k (drop 1 b @ mic_bytes m) = Some enc"
    and b: "b \<noteq> []" and r: "resp_raw_payload resp = take 1 b @ enc"
    by (auto simp: HandleJoin_v1_1_def Let_def split: option.splits if_splits prod.splits)
  from assms(1) e have "length enc = length (drop 1 b @ mic_bytes m)"
    unfolding wire_lengths_def by blast
  moreover have "length (mic_bytes m) = 4" by (cases m) simp
  ultimately show ?thesis using b r by (cases b) simp_all
qed

lemma HandleJoin_legacy_length:
  assumes "wire_lengths env"
    and "HandleJoin_legacy env req pld raw appKey b jn = (Inr resp, evs)"
  shows "length (resp_raw_payload resp) = length b + 4"
proof -
  from assms(2) obtain k m enc where
    e: "EncryptJoinAccept env k (drop 1 b @ mic_bytes m) = Some enc"
    and b: "b \<noteq> []" and r: "resp_raw_payload resp = take 1 b @ enc"
    by (auto simp: HandleJoin_legacy_def Let_def split: option.splits if_splits prod.splits)
  from assms(1) e have "length enc = length (drop 1 b @ mic_bytes m)"
    unfolding wire_lengths_def by blast
  moreover have "length (mic_bytes m) = 4" by (cases m) simp
  ultimately show ?thesis using b r by (cases b) simp_all
qed

lemma HandleJoin_response_length:
  assumes "wire_lengths env"
    and "HandleJoin_response env req ver pld raw dev appKey b jn = (Inr resp, evs)"
  shows "length (resp_raw_payload resp) = length b + 4"
  using assms
  by (cases ver) (auto simp: HandleJoin_response_def
      dest: HandleJoin_v1_1_length HandleJoin_legacy_length)

text \<open>
  Claim C9. With a codec and an encryption of the lengths the spec gives
  (\<open>wire_lengths\<close>), the raw payload of every successful \<open>HandleJoin\<close> has 17 bytes
  when the request has no CFList and 33 bytes when it has one.
\<close>

theorem HandleJoin_raw_payload_length:
  assumes "wire_lengths env" and "result (HandleJoin env js reg ctx req) = Inr resp"
  shows "length (resp_raw_payload resp) = (if cf_list req = None then 17 else 33)"
proof -
  from HandleJoin_Inr [OF assms(2)] obtain dev1 devAddr dn evs where
    "HandleJoin_prepare env js reg ctx req = (Inr (dev1, devAddr, dn, resp), evs)"
    by blast
  from HandleJoin_prepare_Inr [OF this] obtain ver raw msg pld dev appKey b jn where
    a: "HandleJoin_accept env req msg dev devAddr = Inr (b, jn)"
    and r: "HandleJoin_response env req ver pld raw dev1 appKey b jn = (Inr resp, evs)"
    by blast
  from HandleJoin_accept_length [OF assms(1) a] HandleJoin_response_length [OF assms(1) r]
  show ?thesis by simp
qed

lemma wire_lengths_deployment: "wire_lengths deployment"
  by (auto simp: wire_lengths_def deployment_def split: prod.splits option.splits)

text \<open>A 1.0.2 join without a CFList and a 1.1 join with one.\<close>

theorem HandleJoin_raw_payload_length_witness:
  "wire_lengths deployment \<and>
   (\<exists>resp. result (HandleJoin deployment server [device11 0 False None] ns_call
              (join_request MAC_V1_0_2 5 0 None)) = Inr resp \<and>
           length (resp_raw_payload resp) = 17) \<and>
   (\<exists>resp. result (HandleJoin deployment server [device11 0 False None] ns_call
              (join_request MAC_V1_1 5 0 (Some some_cf_list))) = Inr resp \<and>
           length (resp_raw_payload resp) = 33)"
proof -
  obtain r1 where r1: "result (HandleJoin deployment server [device11 0 False None] ns_call
              (join_request MAC_V1_0_2 5 0 None)) = Inr r1"
    by (simp add: HandleJoin_defs deployment_defs)
  obtain r2 where r2: "result (HandleJoin deployment server [device11 0 False None] ns_call
              (join_request MAC_V1_1 5 0 (Some some_cf_list))) = Inr r2"
    by (simp add: HandleJoin_defs deployment_defs)
  have c1: "cf_list (join_request MAC_V1_0_2 5 0 None) = None"
    by (simp add: join_request_def)
  have c2: "cf_list (join_request MAC_V1_1 5 0 (Some some_cf_list)) \<noteq> None"
    by (simp add: join_request_def)
  from HandleJoin_raw_payload_length [OF wire_lengths_deployment r1] c1
  have "length (resp_raw_payload r1) = 17" by simp
  moreover from HandleJoin_raw_payload_length [OF wire_lengths_deployment r2] c2
  have "length (resp_raw_payload r2) = 33" by simp
  ultimately show ?thesis using r1 r2 wire_lengths_deployment by blast
qed


subsection \<open>What the commit writes\<close>

text \<open>
  Claim C10. On a successful join with selected version 1.1 for a device whose
  \<open>disable_join_nonce_check\<close> is set, the device handed to \<open>Store\<close> has the
  \<open>next_dev_nonce\<close> the registry returned.
\<close>

theorem HandleJoin_nonce_check_disabled:
  assumes "result (HandleJoin env js reg ctx req) = Inr resp"
    and "HandleJoin_request env req = Inr (ver, devAddr, raw, msg, pld)"
    and "findByIdentifiers env reg (join_identifiers pld) = Inr dev"
    and "ver = MAC_V1_1"
    and "disable_join_nonce_check dev"
  shows "map next_dev_nonce (stored (events (HandleJoin env js reg ctx req))) =
           [next_dev_nonce dev]"
  using HandleJoin_success [OF assms(1)] assms(2-5)
  by (auto simp: HandleJoin_commit_def)

text \<open>A 1.1 join with DevNonce 5 on a device with the check disabled and counter 7.\<close>

theorem HandleJoin_nonce_check_disabled_witness:
  "\<exists>resp ver devAddr raw msg pld.
     result (HandleJoin deployment server [device11 7 True None] ns_call
               (join_request MAC_V1_1 5 0 None)) = Inr resp \<and>
     HandleJoin_request deployment (join_request MAC_V1_1 5 0 None) =
       Inr (ver, devAddr, raw, msg, pld) \<and>
     findByIdentifiers deployment [device11 7 True None] (join_identifiers pld) =
       Inr (device11 7 True None) \<and>
     ver = MAC_V1_1 \<and>
     disable_join_nonce_check (device11 7 True None) \<and>
     map next_dev_nonce (stored (events (HandleJoin deployment server [device11 7 True None]
        ns_call (join_request MAC_V1_1 5 0 None)))) = [7]"
proof -
  obtain resp where r: "result (HandleJoin deployment server [device11 7 True None] ns_call
               (join_request MAC_V1_1 5 0 None)) = Inr resp"
    by (simp add: HandleJoin_defs deployment_defs)
  obtain ver devAddr raw msg pld where
    q: "HandleJoin_request deployment (join_request MAC_V1_1 5 0 None) =
          Inr (ver, devAddr, raw, msg, pld)"
    and v: "ver = MAC_V1_1"
    and p: "pld = \<lparr>join_eui = 0x42FFFFFFFFFFFFFF, dev_eui = 0x4242FFFFFFFFFFFF,
                   dev_nonce = (5, 0)\<rparr>"
    by (simp add: HandleJoin_defs deployment_defs)
  have f: "findByIdentifiers deployment [device11 7 True None] (join_identifiers pld) =
             Inr (device11 7 True None)"
    by (simp add: p HandleJoin_defs deployment_defs)
  have d: "disable_join_nonce_check (device11 7 True None)"
    by (simp add: device11_def)
  have n: "next_dev_nonce (device11 7 True None) = 7"
    by (simp add: device11_def)
  from HandleJoin_nonce_check_disabled [OF r q f v d] n r q f v d show ?thesis
    by auto
qed

text \<open>
  Claim C3, as the code has it. A successful join hands to \<open>Store\<close> one device whose
  session is the new one (started now, with the request's DevAddr and the response's
  session keys) and whose \<open>session_fallback\<close> is the one the registry returned: the
  session the device had is overwritten, not kept.
\<close>

theorem HandleJoin_installs_session:
  assumes "result (HandleJoin env js reg ctx req) = Inr resp"
  shows "\<exists>ver devAddr raw msg pld dev dev'.
           HandleJoin_request env req = Inr (ver, devAddr, raw, msg, pld) \<and>
           findByIdentifiers env reg (join_identifiers pld) = Inr dev \<and>
           stored (events (HandleJoin env js reg ctx req)) = [dev'] \<and>
           registry (HandleJoin env js reg ctx req) = snd (store env reg dev') \<and>
           session dev' = Some \<lparr>started_at = now_utc env, dev_addr = devAddr,
                                 session_keys = resp_session_keys resp\<rparr> \<and>
           session_fallback dev' = session_fallback dev"
proof -
  from HandleJoin_success [OF assms] obtain ver devAddr raw msg pld dev where
    h: "HandleJoin_request env req = Inr (ver, devAddr, raw, msg, pld)"
       "findByIdentifiers env reg (join_identifiers pld) = Inr dev"
       "stored (events (HandleJoin env js reg ctx req)) =
             [HandleJoin_commit env devAddr (devNonce_uint16 (dev_nonce pld)) resp
                (if \<not> disable_join_nonce_check dev \<and> ver = MAC_V1_1
                 then dev\<lparr>next_dev_nonce := ucast (devNonce_uint16 (dev_nonce pld) + 1)\<rparr>
                 else dev)]"
       "registry (HandleJoin env js reg ctx req) =
             snd (store env reg
               (HandleJoin_commit env devAddr (devNonce_uint16 (dev_nonce pld)) resp
                 (if \<not> disable_join_nonce_check dev \<and> ver = MAC_V1_1
                  then dev\<lparr>next_dev_nonce := ucast (devNonce_uint16 (dev_nonce pld) + 1)\<rparr>
                  else dev)))"
    by blast
  let ?d = "HandleJoin_commit env devAddr (devNonce_uint16 (dev_nonce pld)) resp
                (if \<not> disable_join_nonce_check dev \<and> ver = MAC_V1_1
                 then dev\<lparr>next_dev_nonce := ucast (devNonce_uint16 (dev_nonce pld) + 1)\<rparr>
                 else dev)"
  have "session ?d = Some \<lparr>started_at = now_utc env, dev_addr = devAddr,
                                 session_keys = resp_session_keys resp\<rparr>"
    and "session_fallback ?d = session_fallback dev"
    by (simp_all add: HandleJoin_commit_def)
  with h show ?thesis by blast
qed

theorem HandleJoin_installs_session_witness:
  "\<exists>resp ver devAddr raw msg pld dev dev'.
      result (HandleJoin deployment server [device11 0 False (Some old_session)] ns_call
               (join_request MAC_V1_1 5 0 None)) = Inr resp \<and>
      HandleJoin_request deployment (join_request MAC_V1_1 5 0 None) =
         Inr (ver, devAddr, raw, msg, pld) \<and>
      findByIdentifiers deployment [device11 0 False (Some old_session)]
         (join_identifiers pld) = Inr dev \<and>
      stored (events (HandleJoin deployment server [device11 0 False (Some old_session)]
         ns_call (join_request MAC_V1_1 5 0 None))) = [dev'] \<and>
      registry (HandleJoin deployment server [device11 0 False (Some old_session)]
         ns_call (join_request MAC_V1_1 5 0 None)) =
         snd (store deployment [device11 0 False (Some old_session)] dev') \<and>
      session dev' = Some \<lparr>started_at = now_utc deployment, dev_addr = devAddr,
                            session_keys = resp_session_keys resp\<rparr> \<and>
      session_fallback dev' = session_fallback dev"
proof -
  obtain resp where r: "result (HandleJoin deployment server
      [device11 0 False (Some old_session)] ns_call (join_request MAC_V1_1 5 0 None)) = Inr resp"
    by (simp add: HandleJoin_defs deployment_defs)
  from r HandleJoin_installs_session [OF r] show ?thesis by blast
qed

text \<open>
  Claim C3 as stated fails: this device has a session, the join succeeds, and the
  stored record's \<open>session_fallback\<close> is still empty.
\<close>

theorem HandleJoin_no_rotation_counterexample:
  "\<not> isl (result (HandleJoin deployment server [device11 0 False (Some old_session)] ns_call
               (join_request MAC_V1_1 5 0 None))) \<and>
   session (device11 0 False (Some old_session)) = Some old_session \<and>
   map session_fallback (stored (events (HandleJoin deployment server
      [device11 0 False (Some old_session)] ns_call (join_request MAC_V1_1 5 0 None)))) =
     [None] \<and>
   map session_fallback (registry (HandleJoin deployment server
      [device11 0 False (Some old_session)] ns_call (join_request MAC_V1_1 5 0 None))) = [None]"
  by (simp add: HandleJoin_defs deployment_defs)

text \<open>
  Claim C4, as the code has it. A successful join of any selected version, 1.1
  included, hands to \<open>Store\<close> one device whose \<open>used_dev_nonces\<close> are those the
  registry returned followed by the request's DevNonce.
\<close>

theorem HandleJoin_appends_dev_nonce:
  assumes "result (HandleJoin env js reg ctx req) = Inr resp"
  shows "\<exists>ver devAddr raw msg pld dev dev'.
           HandleJoin_request env req = Inr (ver, devAddr, raw, msg, pld) \<and>
           findByIdentifiers env reg (join_identifiers pld) = Inr dev \<and>
           stored (events (HandleJoin env js reg ctx req)) = [dev'] \<and>
           registry (HandleJoin env js reg ctx req) = snd (store env reg dev') \<and>
           used_dev_nonces dev' =
             used_dev_nonces dev @ [ucast (devNonce_uint16 (dev_nonce pld))]"
proof -
  from HandleJoin_success [OF assms] obtain ver devAddr raw msg pld dev where
    h: "HandleJoin_request env req = Inr (ver, devAddr, raw, msg, pld)"
       "findByIdentifiers env reg (join_identifiers pld) = Inr dev"
       "stored (events (HandleJoin env js reg ctx req)) =
             [HandleJoin_commit env devAddr (devNonce_uint16 (dev_nonce pld)) resp
                (if \<not> disable_join_nonce_check dev \<and> ver = MAC_V1_1
                 then dev\<lparr>next_dev_nonce := ucast (devNonce_uint16 (dev_nonce pld) + 1)\<rparr>
                 else dev)]"
       "registry (HandleJoin env js reg ctx req) =
             snd (store env reg
               (HandleJoin_commit env devAddr (devNonce_uint16 (dev_nonce pld)) resp
                 (if \<not> disable_join_nonce_check dev \<and> ver = MAC_V1_1
                  then dev\<lparr>next_dev_nonce := ucast (devNonce_uint16 (dev_nonce pld) + 1)\<rparr>
                  else dev)))"
    by blast
  let ?d = "HandleJoin_commit env devAddr (devNonce_uint16 (dev_nonce pld)) resp
                (if \<not> disable_join_nonce_check dev \<and> ver = MAC_V1_1
                 then dev\<lparr>next_dev_nonce := ucast (devNonce_uint16 (dev_nonce pld) + 1)\<rparr>
                 else dev)"
  have "used_dev_nonces ?d = used_dev_nonces dev @ [ucast (devNonce_uint16 (dev_nonce pld))]"
    by (simp add: HandleJoin_commit_def)
  with h show ?thesis by blast
qed

theorem HandleJoin_appends_dev_nonce_witness:
  "\<exists>resp ver devAddr raw msg pld dev dev'.
      result (HandleJoin deployment server [device11 0 False None] ns_call
               (join_request MAC_V1_1 5 0 None)) = Inr resp \<and>
      HandleJoin_request deployment (join_request MAC_V1_1 5 0 None) =
         Inr (ver, devAddr, raw, msg, pld) \<and>
      findByIdentifiers deployment [device11 0 False None] (join_identifiers pld) = Inr dev \<and>
      stored (events (HandleJoin deployment server [device11 0 False None]
         ns_call (join_request MAC_V1_1 5 0 None))) = [dev'] \<and>
      registry (HandleJoin deployment server [device11 0 False None]
         ns_call (join_request MAC_V1_1 5 0 None)) =
         snd (store deployment [device11 0 False None] dev') \<and>
      used_dev_nonces dev' = used_dev_nonces dev @ [ucast (devNonce_uint16 (dev_nonce pld))]"
proof -
  obtain resp where r: "result (HandleJoin deployment server
      [device11 0 False None] ns_call (join_request MAC_V1_1 5 0 None)) = Inr resp"
    by (simp add: HandleJoin_defs deployment_defs)
  from r HandleJoin_appends_dev_nonce [OF r] show ?thesis by blast
qed

text \<open>
  Claim C4 as stated fails: a successful 1.1 join with DevNonce 5 on a device without
  used nonces stores the list \<open>[5]\<close>.
\<close>

theorem HandleJoin_v1_1_appends_counterexample:
  "\<not> isl (result (HandleJoin deployment server [device11 0 False None] ns_call
               (join_request MAC_V1_1 5 0 None))) \<and>
   selected_mac_version (join_request MAC_V1_1 5 0 None) = MAC_V1_1 \<and>
   used_dev_nonces (device11 0 False None) = [] \<and>
   map used_dev_nonces (stored (events (HandleJoin deployment server [device11 0 False None]
               ns_call (join_request MAC_V1_1 5 0 None)))) = [[5]] \<and>
   map used_dev_nonces (registry (HandleJoin deployment server [device11 0 False None] ns_call
               (join_request MAC_V1_1 5 0 None))) = [[5]]"
  by (simp add: HandleJoin_defs deployment_defs)

subsection \<open>The replay counter of 1.1\<close>

lemma uint_ucast16: "uint (ucast (dn :: 16 word) :: 32 word) = uint dn"
  by (simp add: uint_up_ucast is_up)

lemma ucast16_less_max: "(ucast (dn :: 16 word) :: 32 word) < 0xFFFFFFFF"
proof -
  have "uint dn < 2 ^ 16" using uint_lt2p [of dn] by simp
  then show ?thesis by (simp add: word_less_def uint_ucast16)
qed

text \<open>
  The comparison of line 247 comes first and a DevNonce has 16 bits, so the branch of
  line 250 is never taken.
\<close>

lemma HandleJoin_nonce_never_too_high:
  "HandleJoin_nonce ver dn dev \<noteq> Inl ErrDevNonceTooHigh"
  using ucast16_less_max [of dn]
  by (cases ver) (auto simp: HandleJoin_nonce_def legacy_nonce_check_def)

lemma HandleJoin_nonce_max_counter:
  assumes "next_dev_nonce dev = 0xFFFFFFFF" and "\<not> disable_join_nonce_check dev"
  shows "HandleJoin_nonce MAC_V1_1 dn dev = Inl ErrDevNonceTooSmall"
  using assms ucast16_less_max [of dn] by (simp add: HandleJoin_nonce_def)

text \<open>
  Below \<open>0xFFFF\<close> an accepted DevNonce is at least the counter and the new counter is
  above it; at \<open>0xFFFF\<close> the sum of line 253 wraps and the new counter is 0.
\<close>

lemma uint_succ16:
  assumes "(dn :: 16 word) \<noteq> 0xFFFF"
  shows "uint (dn + 1) = uint dn + 1"
proof -
  have "uint dn < 2 ^ 16" using uint_lt2p [of dn] by simp
  moreover from assms have "uint dn \<noteq> uint (0xFFFF :: 16 word)"
    by (simp only: word_uint_eq_iff not_False_eq_True)
  then have "uint dn \<noteq> 65535" by simp
  ultimately have "uint dn + 1 < 2 ^ 16" by simp
  then show ?thesis by (simp add: uint_word_ariths)
qed

lemma HandleJoin_nonce_advances:
  assumes "HandleJoin_nonce MAC_V1_1 dn dev = Inr dev1" and "\<not> disable_join_nonce_check dev"
    and "dn \<noteq> 0xFFFF"
  shows "next_dev_nonce dev \<le> ucast dn \<and> ucast dn < next_dev_nonce dev1"
proof -
  from assms(1,2) have a: "\<not> ucast dn < next_dev_nonce dev"
    and b: "next_dev_nonce dev1 = ucast (dn + 1)"
    by (auto simp: HandleJoin_nonce_def split: if_splits)
  have "uint (ucast dn :: 32 word) < uint (ucast (dn + 1) :: 32 word)"
    by (simp add: uint_ucast16 uint_succ16 [OF assms(3)])
  with a b show ?thesis by (simp add: word_less_def word_le_def)
qed

lemma HandleJoin_nonce_wraps:
  assumes "\<not> disable_join_nonce_check dev" and "next_dev_nonce dev \<le> 0xFFFF"
  shows "HandleJoin_nonce MAC_V1_1 0xFFFF dev = Inr (dev\<lparr>next_dev_nonce := 0\<rparr>)"
  using assms by (auto simp: HandleJoin_nonce_def)

text \<open>
  Claim C1, at DevNonce \<open>0xFFFF\<close>: the join is accepted, the stored counter is 0, not
  above \<open>0xFFFF\<close>, and the next join, with DevNonce 0, is accepted too: the accepted
  DevNonces \<open>0xFFFF, 0\<close> do not increase.
\<close>

theorem HandleJoin_dev_nonce_wraps:
  "\<not> isl (result (HandleJoin deployment server [device11 0 False None] ns_call
               (join_request MAC_V1_1 0xFF 0xFF None))) \<and>
   map next_dev_nonce (registry (HandleJoin deployment server [device11 0 False None] ns_call
               (join_request MAC_V1_1 0xFF 0xFF None))) = [0] \<and>
   \<not> isl (result (HandleJoin deployment server
       (registry (HandleJoin deployment server [device11 0 False None] ns_call
               (join_request MAC_V1_1 0xFF 0xFF None)))
       ns_call (join_request MAC_V1_1 0 0 None)))"
  by (simp add: HandleJoin_defs deployment_defs)

text \<open>
  Claim C2, at a counter of \<open>2^32 - 1\<close>: the join fails, with \<open>DevNonceTooSmall\<close>
  and not with \<open>DevNonceTooHigh\<close>.
\<close>

theorem HandleJoin_max_counter_too_small:
  "HandleJoin deployment server [device11 0xFFFFFFFF False None] ns_call
     (join_request MAC_V1_1 0xFF 0xFF None) =
   \<lparr>result = Inl ErrDevNonceTooSmall, registry = [device11 0xFFFFFFFF False None],
    events = []\<rparr>"
  by (simp add: HandleJoin_defs deployment_defs)

end
